theory Spec2Isabelle
  imports Main "HOL-Library.Sublist"
begin

section \<open>Python values used by \<open>webservice.py\<close>\<close>

text \<open>
  \<open>bytes\<close> objects are byte lists (\<open>char\<close> is eight bits wide); \<open>str\<close> objects are lists
  of Unicode code points. A \<open>str\<close> literal of the source is written \<open>lit ''...''\<close>.
\<close>

type_synonym bytes = string
type_synonym pystr = "nat list"

definition lit :: "string \<Rightarrow> pystr" where
  "lit cs = map of_char cs"

text \<open>The exceptions the module can see. All of them derive from \<open>Exception\<close>.\<close>

datatype exn =
    KeyError bytes
      \<comment> \<open>subscripting the argument dict with an absent \<open>bytes\<close> key\<close>
  | IndexError
      \<comment> \<open>\<open>[0]\<close> on an empty list\<close>
  | UnicodeDecodeError bytes nat nat string
      \<comment> \<open>object, start, end, reason\<close>
  | UnicodeEncodeError pystr nat nat string
      \<comment> \<open>object, start, end, reason\<close>
  | NotImplementedError
  | MissingArgument "bytes list"
      \<comment> \<open>raised by the argument validators, carrying the names looked for\<close>
  | Error pystr
      \<comment> \<open>any exception raised by a collaborator, given by its \<open>str()\<close> text\<close>

subsection \<open>Numbers as text\<close>

fun dec_nat :: "nat \<Rightarrow> pystr" where
  "dec_nat n = (if n < 10 then [48 + n] else dec_nat (n div 10) @ [48 + n mod 10])"

declare dec_nat.simps [simp del]

definition dec_int :: "int \<Rightarrow> pystr" where
  "dec_int i = (if i < 0 then lit ''-'' @ dec_nat (nat (- i)) else dec_nat (nat i))"

definition hex_digit :: "nat \<Rightarrow> nat" where
  "hex_digit d = (if d < 10 then 48 + d else 87 + d)"

definition hex2 :: "nat \<Rightarrow> pystr" where
  "hex2 n = [hex_digit (n div 16 mod 16), hex_digit (n mod 16)]"

definition hex4 :: "nat \<Rightarrow> pystr" where
  "hex4 n = hex2 (n div 256) @ hex2 (n mod 256)"

subsection \<open>\<open>repr\<close> of a \<open>bytes\<close> object\<close>

definition repr_byte :: "nat \<Rightarrow> nat \<Rightarrow> pystr" where
  "repr_byte quote c =
     (if c = quote \<or> c = 92 then [92, c]
      else if c = 9 then [92, 116]
      else if c = 10 then [92, 110]
      else if c = 13 then [92, 114]
      else if c < 32 \<or> 127 \<le> c then [92, 120] @ hex2 c
      else [c])"

definition repr_bytes :: "bytes \<Rightarrow> pystr" where
  "repr_bytes b =
     (let cs = map of_char b;
          quote = (if 39 \<in> set cs \<and> 34 \<notin> set cs then 34 else 39)
      in lit ''b'' @ [quote] @ concat (map (repr_byte quote) cs) @ [quote])"

subsection \<open>The UTF-8 codec\<close>

definition is_cont :: "nat \<Rightarrow> bool" where
  "is_cont b = (128 \<le> b \<and> b < 192)"

definition cons_ok :: "nat \<Rightarrow> (exn + pystr) \<Rightarrow> (exn + pystr)" where
  "cons_ok c r = (case r of Inl e \<Rightarrow> Inl e | Inr cs \<Rightarrow> Inr (c # cs))"

text \<open>
  \<open>utf8_decode obj i bs\<close> decodes the bytes \<open>bs\<close> that start at offset \<open>i\<close> of \<open>obj\<close>, in
  strict mode: overlong forms, surrogates and code points above \<open>0x10FFFF\<close> are rejected.
\<close>

fun utf8_decode :: "bytes \<Rightarrow> nat \<Rightarrow> nat list \<Rightarrow> exn + pystr" where
  "utf8_decode obj i [] = Inr []"
| "utf8_decode obj i (b # bs) =
     (if b < 128 then cons_ok b (utf8_decode obj (i + 1) bs)
      else if b < 194 then Inl (UnicodeDecodeError obj i (i + 1) ''invalid start byte'')
      else if b < 224 then
        (case bs of
           [] \<Rightarrow> Inl (UnicodeDecodeError obj i (i + 1) ''unexpected end of data'')
         | b2 # r2 \<Rightarrow>
             if \<not> is_cont b2
             then Inl (UnicodeDecodeError obj i (i + 1) ''invalid continuation byte'')
             else cons_ok ((b - 192) * 64 + (b2 - 128)) (utf8_decode obj (i + 2) r2))
      else if b < 240 then
        (case bs of
           [] \<Rightarrow> Inl (UnicodeDecodeError obj i (i + 1) ''unexpected end of data'')
         | b2 # r2 \<Rightarrow>
             if \<not> is_cont b2 \<or> (if b2 < 160 then b = 224 else b = 237)
             then Inl (UnicodeDecodeError obj i (i + 1) ''invalid continuation byte'')
             else
               (case r2 of
                  [] \<Rightarrow> Inl (UnicodeDecodeError obj i (i + 2) ''unexpected end of data'')
                | b3 # r3 \<Rightarrow>
                    if \<not> is_cont b3
                    then Inl (UnicodeDecodeError obj i (i + 2) ''invalid continuation byte'')
                    else cons_ok ((b - 224) * 4096 + (b2 - 128) * 64 + (b3 - 128))
                           (utf8_decode obj (i + 3) r3)))
      else if b < 245 then
        (case bs of
           [] \<Rightarrow> Inl (UnicodeDecodeError obj i (i + 1) ''unexpected end of data'')
         | b2 # r2 \<Rightarrow>
             if \<not> is_cont b2 \<or> (if b2 < 144 then b = 240 else b = 244)
             then Inl (UnicodeDecodeError obj i (i + 1) ''invalid continuation byte'')
             else
               (case r2 of
                  [] \<Rightarrow> Inl (UnicodeDecodeError obj i (i + 2) ''unexpected end of data'')
                | b3 # r3 \<Rightarrow>
                    if \<not> is_cont b3
                    then Inl (UnicodeDecodeError obj i (i + 2) ''invalid continuation byte'')
                    else
                      (case r3 of
                         [] \<Rightarrow> Inl (UnicodeDecodeError obj i (i + 3) ''unexpected end of data'')
                       | b4 # r4 \<Rightarrow>
                           if \<not> is_cont b4
                           then Inl (UnicodeDecodeError obj i (i + 3)
                                       ''invalid continuation byte'')
                           else cons_ok ((b - 240) * 262144 + (b2 - 128) * 4096
                                           + (b3 - 128) * 64 + (b4 - 128))
                                  (utf8_decode obj (i + 4) r4))))
      else Inl (UnicodeDecodeError obj i (i + 1) ''invalid start byte''))"

definition decode :: "bytes \<Rightarrow> exn + pystr" where
  "decode b = utf8_decode b 0 (map of_char b)"

definition is_surrogate :: "nat \<Rightarrow> bool" where
  "is_surrogate c = (55296 \<le> c \<and> c < 57344)"

definition utf8_bytes :: "nat \<Rightarrow> bytes" where
  "utf8_bytes c =
     (if c < 128 then [char_of c]
      else if c < 2048 then [char_of (192 + c div 64), char_of (128 + c mod 64)]
      else if c < 65536 then
        [char_of (224 + c div 4096), char_of (128 + c div 64 mod 64), char_of (128 + c mod 64)]
      else
        [char_of (240 + c div 262144), char_of (128 + c div 4096 mod 64),
         char_of (128 + c div 64 mod 64), char_of (128 + c mod 64)])"

fun utf8_encode :: "pystr \<Rightarrow> nat \<Rightarrow> pystr \<Rightarrow> exn + bytes" where
  "utf8_encode obj i [] = Inr []"
| "utf8_encode obj i (c # cs) =
     (if is_surrogate c
      then Inl (UnicodeEncodeError obj i (i + 1 + length (takeWhile is_surrogate cs))
                  ''surrogates not allowed'')
      else (case utf8_encode obj (i + 1) cs of
              Inl e \<Rightarrow> Inl e
            | Inr bs \<Rightarrow> Inr (utf8_bytes c @ bs)))"

definition encode :: "pystr \<Rightarrow> exn + bytes" where
  "encode s = utf8_encode s 0 s"

subsection \<open>\<open>str()\<close> of an exception\<close>

fun join :: "pystr \<Rightarrow> pystr list \<Rightarrow> pystr" where
  "join sep [] = []"
| "join sep [x] = x"
| "join sep (x # y # ys) = x @ sep @ join sep (y # ys)"

definition codec_message :: "string \<Rightarrow> pystr \<Rightarrow> nat \<Rightarrow> string \<Rightarrow> pystr" where
  "codec_message verb what start reason =
     [39] @ lit ''utf-8'' @ [39] @ lit '' codec can'' @ [39] @ lit ''t '' @ lit verb
       @ lit '' '' @ what @ lit '' in position '' @ dec_nat start @ lit '': '' @ lit reason"

definition codec_message_range :: "string \<Rightarrow> string \<Rightarrow> nat \<Rightarrow> nat \<Rightarrow> string \<Rightarrow> pystr" where
  "codec_message_range verb what start end reason =
     [39] @ lit ''utf-8'' @ [39] @ lit '' codec can'' @ [39] @ lit ''t '' @ lit verb
       @ lit '' '' @ lit what @ lit '' in position '' @ dec_nat start @ lit ''-''
       @ dec_nat (end - 1) @ lit '': '' @ lit reason"

text \<open>
  Modelled from the spec: the text of a \<open>MissingArgument\<close> error, which the argument
  validators of \<open>scrapy_do.utils\<close> raise and which are not among the sources. The spec shows
  one instance, \<open>Missing argument: id\<close>; several names are separated by commas. All other
  texts are those of Python. The codec raises \<open>UnicodeEncodeError\<close> for surrogates only,
  which its text shows in the escaped form of \<open>repr\<close>.
\<close>

fun str_exn :: "exn \<Rightarrow> pystr" where
  "str_exn (KeyError k) = repr_bytes k"
| "str_exn IndexError = lit ''list index out of range''"
| "str_exn (UnicodeDecodeError obj start end reason) =
     (if start < length obj \<and> end = start + 1
      then codec_message ''decode'' (lit ''byte 0x'' @ hex2 (of_char (obj ! start))) start reason
      else codec_message_range ''decode'' ''bytes'' start end reason)"
| "str_exn (UnicodeEncodeError obj start end reason) =
     (if start < length obj \<and> end = start + 1
      then codec_message ''encode''
             (lit ''character '' @ [39] @ [92, 117] @ hex4 (obj ! start) @ [39]) start reason
      else codec_message_range ''encode'' ''characters'' start end reason)"
| "str_exn NotImplementedError = []"
| "str_exn (MissingArgument names) =
     lit ''Missing argument: '' @ join (lit '', '') (map lit names)"
| "str_exn (Error m) = m"

section \<open>JSON\<close>

text \<open>
  The values \<open>json.dumps\<close> is given. A dict keeps its insertion order and is an association
  list with distinct keys. The only floats are the percentages of \<open>psutil\<close>, rounded to
  one decimal: \<open>JFloat n\<close> is \<open>n / 10\<close>. The collaborators return values of this type
  only, so \<open>json.dumps\<close> has no value it cannot serialise.
\<close>

datatype json =
    JNull
  | JBool bool
  | JInt int
  | JFloat nat
  | JStr pystr
  | JList "json list"
  | JObj "(pystr \<times> json) list"

type_synonym dict = "(pystr \<times> json) list"

fun dict_set :: "('k \<times> 'v) list \<Rightarrow> 'k \<Rightarrow> 'v \<Rightarrow> ('k \<times> 'v) list" where
  "dict_set [] k v = [(k, v)]"
| "dict_set ((k', v') # d) k v = (if k' = k then (k, v) # d else (k', v') # dict_set d k v)"

text \<open>\<open>{**a, **b}\<close>\<close>

definition dict_merge :: "('k \<times> 'v) list \<Rightarrow> ('k \<times> 'v) list \<Rightarrow> ('k \<times> 'v) list" where
  "dict_merge a b = foldl (\<lambda>d kv. dict_set d (fst kv) (snd kv)) a b"

text \<open>String escaping of \<open>json.dumps\<close> with its default \<open>ensure_ascii=True\<close>.\<close>

definition json_escape_char :: "nat \<Rightarrow> pystr" where
  "json_escape_char c =
     (if c = 34 then [92, 34]
      else if c = 92 then [92, 92]
      else if c = 10 then [92, 110]
      else if c = 13 then [92, 114]
      else if c = 9 then [92, 116]
      else if c = 12 then [92, 102]
      else if c = 8 then [92, 98]
      else if 32 \<le> c \<and> c \<le> 126 then [c]
      else if c < 65536 then [92, 117] @ hex4 c
      else [92, 117] @ hex4 (55296 + (c - 65536) div 1024 mod 1024)
             @ [92, 117] @ hex4 (56320 + (c - 65536) mod 1024))"

definition json_string :: "pystr \<Rightarrow> pystr" where
  "json_string s = [34] @ concat (map json_escape_char s) @ [34]"

fun json_dumps :: "json \<Rightarrow> pystr" where
  "json_dumps JNull = lit ''null''"
| "json_dumps (JBool b) = (if b then lit ''true'' else lit ''false'')"
| "json_dumps (JInt i) = dec_int i"
| "json_dumps (JFloat n) = dec_nat (n div 10) @ lit ''.'' @ dec_nat (n mod 10)"
| "json_dumps (JStr s) = json_string s"
| "json_dumps (JList xs) = lit ''['' @ join (lit '', '') (map json_dumps xs) @ lit '']''"
| "json_dumps (JObj kvs) =
     lit ''{'' @ join (lit '', '')
                  (map (\<lambda>kv. json_string (fst kv) @ lit '': '' @ json_dumps (snd kv)) kvs)
       @ lit ''}''"

section \<open>The request and the collaborators\<close>

text \<open>
  What a handler can see and change: the request (its arguments, and the response it carries:
  status code, headers, the chunks written so far, how often it was marked complete), the
  calls made on the controller, and the generator that \<open>do_async\<close> leaves behind. The
  request is Twisted's; \<open>setResponseCode\<close>, \<open>setHeader\<close>, \<open>write\<close> and \<open>finish\<close> record
  what the module passes to them. A new request has status code 200.
\<close>

datatype 'st call =
    Push_project pystr bytes
  | Get_projects
  | Get_spiders pystr
  | Schedule_job pystr pystr pystr
  | Get_jobs 'st
  | Get_job pystr
  | Cancel_job pystr

datatype gen =
    Idle
      \<comment> \<open>no generator was started\<close>
  | Suspended_push pystr bytes
      \<comment> \<open>waiting at \<open>yield controller.push_project(name, data)\<close>\<close>
  | Suspended_cancel pystr
      \<comment> \<open>waiting at \<open>yield controller.cancel_job(job_id)\<close>\<close>
  | Finished
      \<comment> \<open>the generator returned\<close>
  | Failed exn
      \<comment> \<open>the generator raised: its Deferred failed, and nothing handles that\<close>

datatype header_value = HStr pystr | HInt nat

record 'st state =
  args :: "bytes \<rightharpoonup> bytes list"
  code :: nat
  headers :: "(pystr \<times> header_value) list"
  written :: "bytes list"
  finished :: nat
  calls :: "'st call list"
  gen :: gen

definition setResponseCode :: "'st state \<Rightarrow> nat \<Rightarrow> 'st state" where
  "setResponseCode s c = s\<lparr>code := c\<rparr>"

definition setHeader :: "'st state \<Rightarrow> pystr \<Rightarrow> header_value \<Rightarrow> 'st state" where
  "setHeader s name v = s\<lparr>headers := dict_set (headers s) name v\<rparr>"

definition request_write :: "'st state \<Rightarrow> bytes \<Rightarrow> 'st state" where
  "request_write s b = s\<lparr>written := written s @ [b]\<rparr>"

definition finish :: "'st state \<Rightarrow> 'st state" where
  "finish s = s\<lparr>finished := finished s + 1\<rparr>"

definition call :: "'st call \<Rightarrow> 'st state \<Rightarrow> 'st state" where
  "call c s = s\<lparr>calls := calls s @ [c]\<rparr>"

text \<open>
  The collaborators the module is given. A controller operation yields its result or raises;
  for the two asynchronous operations this is what their Deferred ends with. \<open>JobStatus\<close> is
  the lookup \<open>JobStatus[name]\<close> in the enumeration of \<open>schedule\<close>, \<open>to_dict\<close> the
  serialisation of a job, \<open>memory_rss\<close> and \<open>cpu_percent\<close> (in tenths) what \<open>psutil\<close>
  reports.
\<close>

record ('st, 'job) env =
  push_project :: "pystr \<Rightarrow> bytes \<Rightarrow> exn + pystr list"
  get_projects :: "exn + pystr list"
  get_spiders :: "pystr \<Rightarrow> exn + pystr list"
  schedule_job :: "pystr \<Rightarrow> pystr \<Rightarrow> pystr \<Rightarrow> exn + pystr"
  get_jobs :: "'st \<Rightarrow> exn + 'job list"
  get_job :: "pystr \<Rightarrow> exn + 'job"
  cancel_job :: "pystr \<Rightarrow> exn + unit"
  to_dict :: "'job \<Rightarrow> dict"
  JobStatus :: "pystr \<Rightarrow> exn + 'st"
  memory_rss :: int
  cpu_percent :: nat

subsection \<open>Reading arguments\<close>

text \<open>\<open>request.args[k][0]\<close> and \<open>request.args[k][0].decode('utf-8')\<close>\<close>

definition arg0 :: "(bytes \<rightharpoonup> bytes list) \<Rightarrow> bytes \<Rightarrow> exn + bytes" where
  "arg0 a k =
     (case a k of
        None \<Rightarrow> Inl (KeyError k)
      | Some [] \<Rightarrow> Inl IndexError
      | Some (v # vs) \<Rightarrow> Inr v)"

definition arg0_text :: "(bytes \<rightharpoonup> bytes list) \<Rightarrow> bytes \<Rightarrow> exn + pystr" where
  "arg0_text a k = (case arg0 a k of Inl e \<Rightarrow> Inl e | Inr v \<Rightarrow> decode v)"

text \<open>
  Modelled from the spec: \<open>arg_require_all\<close> of \<open>scrapy_do.utils\<close>, which is not among the
  sources. Given the argument mapping and a list of required names, it fails with a
  \<open>MissingArgument\<close> error carrying the missing name if any of them is absent.
\<close>

fun arg_require_all :: "(bytes \<rightharpoonup> bytes list) \<Rightarrow> bytes list \<Rightarrow> exn + unit" where
  "arg_require_all a [] = Inr ()"
| "arg_require_all a (n # ns) =
     (if a n = None then Inl (MissingArgument [n]) else arg_require_all a ns)"

text \<open>
  Modelled from the spec: \<open>arg_require_any\<close> of \<open>scrapy_do.utils\<close>, which is not among the
  sources. Given a list of alternative names, it fails with a \<open>MissingArgument\<close> error if
  none of them is present.
\<close>

definition arg_require_any :: "(bytes \<rightharpoonup> bytes list) \<Rightarrow> bytes list \<Rightarrow> exn + unit" where
  "arg_require_any a ns =
     (if list_ex (\<lambda>n. a n \<noteq> None) ns then Inr () else Inl (MissingArgument ns))"

section \<open>\<open>JsonResource\<close>\<close>

text \<open>What a \<open>render_*\<close> method returns, and what \<open>render\<close> returns.\<close>

datatype hret = NOT_DONE_YET | Data dict

datatype rendered = NotDoneYet | Body bytes

definition render_json :: "'st state \<Rightarrow> dict \<Rightarrow> (exn + bytes) \<times> 'st state" where
  "render_json s data =
     (case encode (json_dumps (JObj data) @ [10]) of
        Inl e \<Rightarrow> (Inl e, s)
      | Inr json_data \<Rightarrow>
          (Inr json_data,
           setHeader (setHeader s (lit ''Content-Type'') (HStr (lit ''application/json'')))
             (lit ''Content-Length'') (HInt (length json_data))))"

text \<open>
  \<open>render\<close> is given the method that \<open>Resource.render\<close> dispatches to. The \<open>except\<close> clause
  has no handler of its own: what \<open>render_json\<close> raises there leaves \<open>render\<close>.
\<close>

definition render_error :: "exn \<Rightarrow> 'st state \<Rightarrow> (exn + rendered) \<times> 'st state" where
  "render_error e s =
     (case render_json (setResponseCode s 400)
             [(lit ''status'', JStr (lit ''error'')), (lit ''msg'', JStr (str_exn e))] of
        (Inl e', s') \<Rightarrow> (Inl e', s')
      | (Inr b, s') \<Rightarrow> (Inr (Body b), s'))"

definition render ::
  "('st state \<Rightarrow> (exn + hret) \<times> 'st state) \<Rightarrow> 'st state \<Rightarrow> (exn + rendered) \<times> 'st state" where
  "render handler s =
     (case handler s of
        (Inl e, s1) \<Rightarrow> render_error e s1
      | (Inr NOT_DONE_YET, s1) \<Rightarrow> (Inr NotDoneYet, s1)
      | (Inr (Data data), s1) \<Rightarrow>
          (case render_json s1 (dict_merge [(lit ''status'', JStr (lit ''ok''))] data) of
             (Inl e, s2) \<Rightarrow> render_error e s2
           | (Inr b, s2) \<Rightarrow> (Inr (Body b), s2)))"

section \<open>The resource nodes\<close>

definition Status_render_GET ::
  "('st, 'job) env \<Rightarrow> 'st state \<Rightarrow> (exn + hret) \<times> 'st state" where
  "Status_render_GET env s =
     (Inr (Data [(lit ''memory-usage'', JInt (memory_rss env)),
                 (lit ''cpu-usage'', JFloat (cpu_percent env))]), s)"

definition ListProjects_render_GET ::
  "('st, 'job) env \<Rightarrow> 'st state \<Rightarrow> (exn + hret) \<times> 'st state" where
  "ListProjects_render_GET env s =
     (case get_projects env of
        Inl e \<Rightarrow> (Inl e, call Get_projects s)
      | Inr projects \<Rightarrow>
          (Inr (Data [(lit ''projects'', JList (map JStr projects))]), call Get_projects s))"

definition ListSpiders_render_GET ::
  "('st, 'job) env \<Rightarrow> 'st state \<Rightarrow> (exn + hret) \<times> 'st state" where
  "ListSpiders_render_GET env s =
     (case arg_require_all (args s) [''project''] of
        Inl e \<Rightarrow> (Inl e, s)
      | Inr _ \<Rightarrow>
     (case arg0_text (args s) ''project'' of
        Inl e \<Rightarrow> (Inl e, s)
      | Inr project \<Rightarrow>
     (case get_spiders env project of
        Inl e \<Rightarrow> (Inl e, call (Get_spiders project) s)
      | Inr spiders \<Rightarrow>
          (Inr (Data [(lit ''project'', JStr project),
                      (lit ''spiders'', JList (map JStr spiders))]),
           call (Get_spiders project) s))))"

definition ScheduleJob_render_POST ::
  "('st, 'job) env \<Rightarrow> 'st state \<Rightarrow> (exn + hret) \<times> 'st state" where
  "ScheduleJob_render_POST env s =
     (case arg_require_all (args s) [''project'', ''spider'', ''when''] of
        Inl e \<Rightarrow> (Inl e, s)
      | Inr _ \<Rightarrow>
     (case arg0_text (args s) ''project'' of
        Inl e \<Rightarrow> (Inl e, s)
      | Inr project \<Rightarrow>
     (case arg0_text (args s) ''spider'' of
        Inl e \<Rightarrow> (Inl e, s)
      | Inr spider \<Rightarrow>
     (case arg0_text (args s) ''when'' of
        Inl e \<Rightarrow> (Inl e, s)
      | Inr when \<Rightarrow>
     (case schedule_job env project spider when of
        Inl e \<Rightarrow> (Inl e, call (Schedule_job project spider when) s)
      | Inr job_id \<Rightarrow>
          (Inr (Data [(lit ''identifier'', JStr job_id)]),
           call (Schedule_job project spider when) s))))))"

definition ListJobs_render_GET ::
  "('st, 'job) env \<Rightarrow> 'st state \<Rightarrow> (exn + hret) \<times> 'st state" where
  "ListJobs_render_GET env s =
     (case arg_require_any (args s) [''status'', ''id''] of
        Inl e \<Rightarrow> (Inl e, s)
      | Inr _ \<Rightarrow>
     (if args s ''status'' \<noteq> None then
        (case arg0_text (args s) ''status'' of
           Inl e \<Rightarrow> (Inl e, s)
         | Inr name \<Rightarrow>
        (case JobStatus env name of
           Inl e \<Rightarrow> (Inl e, s)
         | Inr status \<Rightarrow>
        (case get_jobs env status of
           Inl e \<Rightarrow> (Inl e, call (Get_jobs status) s)
         | Inr jobs \<Rightarrow>
             (Inr (Data [(lit ''jobs'', JList (map (\<lambda>job. JObj (to_dict env job)) jobs))]),
              call (Get_jobs status) s))))
      else
        (case arg0_text (args s) ''id'' of
           Inl e \<Rightarrow> (Inl e, s)
         | Inr identifier \<Rightarrow>
        (case get_job env identifier of
           Inl e \<Rightarrow> (Inl e, call (Get_job identifier) s)
         | Inr job \<Rightarrow>
             (Inr (Data [(lit ''jobs'', JList (map (\<lambda>job. JObj (to_dict env job)) [job]))]),
              call (Get_job identifier) s)))))"

subsection \<open>The two asynchronous nodes\<close>

text \<open>
  \<open>do_async\<close> is a generator under \<open>inlineCallbacks\<close>. \<open>*_do_async\<close> runs it up to its
  \<open>yield\<close>, its \<open>return\<close> or the exception that leaves it; \<open>*_resume\<close> runs the rest once
  the Deferred it waits for has ended with \<open>outcome\<close>. \<open>render_POST\<close> starts the generator,
  drops the Deferred that \<open>do_async()\<close> returns, and returns \<open>NOT_DONE_YET\<close>.
\<close>

definition write_and_finish :: "'st state \<Rightarrow> dict \<Rightarrow> 'st state" where
  "write_and_finish s result =
     (case render_json s result of
        (Inl e, s') \<Rightarrow> s'\<lparr>gen := Failed e\<rparr>
      | (Inr b, s') \<Rightarrow> (finish (request_write s' b))\<lparr>gen := Finished\<rparr>)"

definition missing_argument :: "exn \<Rightarrow> 'st state \<Rightarrow> 'st state" where
  "missing_argument e s =
     write_and_finish (setResponseCode s 400)
       [(lit ''status'', JStr (lit ''error'')),
        (lit ''msg'', JStr (lit ''Missing argument: '' @ str_exn e))]"

definition PushProject_do_async :: "'st state \<Rightarrow> 'st state" where
  "PushProject_do_async s =
     (case (case arg0_text (args s) ''name'' of
              Inl e \<Rightarrow> Inl e
            | Inr name \<Rightarrow>
                (case arg0 (args s) ''archive'' of
                   Inl e \<Rightarrow> Inl e
                 | Inr data \<Rightarrow> Inr (name, data))) of
        Inl e \<Rightarrow>
          (case e of
             KeyError k \<Rightarrow> missing_argument e s
           | _ \<Rightarrow> s\<lparr>gen := Failed e\<rparr>)
      | Inr (name, data) \<Rightarrow> (call (Push_project name data) s)\<lparr>gen := Suspended_push name data\<rparr>)"

definition PushProject_resume :: "(exn + pystr list) \<Rightarrow> 'st state \<Rightarrow> 'st state" where
  "PushProject_resume outcome s =
     (case outcome of
        Inr spiders \<Rightarrow>
          write_and_finish s
            [(lit ''status'', JStr (lit ''ok'')), (lit ''spiders'', JList (map JStr spiders))]
      | Inl e \<Rightarrow>
          write_and_finish (setResponseCode s 400)
            [(lit ''status'', JStr (lit ''error'')), (lit ''msg'', JStr (str_exn e))])"

definition PushProject_render_POST :: "'st state \<Rightarrow> (exn + hret) \<times> 'st state" where
  "PushProject_render_POST s = (Inr NOT_DONE_YET, PushProject_do_async s)"

definition CancelJob_do_async :: "'st state \<Rightarrow> 'st state" where
  "CancelJob_do_async s =
     (case arg0_text (args s) ''id'' of
        Inl e \<Rightarrow>
          (case e of
             KeyError k \<Rightarrow> missing_argument e s
           | _ \<Rightarrow> s\<lparr>gen := Failed e\<rparr>)
      | Inr job_id \<Rightarrow> (call (Cancel_job job_id) s)\<lparr>gen := Suspended_cancel job_id\<rparr>)"

definition CancelJob_resume :: "(exn + unit) \<Rightarrow> 'st state \<Rightarrow> 'st state" where
  "CancelJob_resume outcome s =
     (case outcome of
        Inr _ \<Rightarrow> write_and_finish s [(lit ''status'', JStr (lit ''ok''))]
      | Inl e \<Rightarrow>
          write_and_finish (setResponseCode s 400)
            [(lit ''status'', JStr (lit ''error'')), (lit ''msg'', JStr (str_exn e))])"

definition CancelJob_render_POST :: "'st state \<Rightarrow> (exn + hret) \<times> 'st state" where
  "CancelJob_render_POST s = (Inr NOT_DONE_YET, CancelJob_do_async s)"

text \<open>The controller's Deferred ends, and the suspended generator runs on.\<close>

definition deliver :: "('st, 'job) env \<Rightarrow> 'st state \<Rightarrow> 'st state" where
  "deliver env s =
     (case gen s of
        Suspended_push name data \<Rightarrow> PushProject_resume (push_project env name data) s
      | Suspended_cancel job_id \<Rightarrow> CancelJob_resume (cancel_job env job_id) s
      | _ \<Rightarrow> s)"

section \<open>The web application and its gate\<close>

text \<open>
  The configuration object and \<open>get_object\<close> come from modules that are not among the
  sources; they are parameters. A class that \<open>get_object\<close> resolves is a value of \<open>'cls\<close>,
  and \<open>Module c\<close> is the instance \<open>c(self)\<close> that \<open>WebApp.__init__\<close> makes of it. Each
  \<open>WebApp\<close> object has an identity: the constructor takes the next free one from the heap
  counter.
\<close>

record config =
  get_bool :: "pystr \<Rightarrow> pystr \<Rightarrow> bool \<Rightarrow> exn + bool"
  get_string :: "pystr \<Rightarrow> pystr \<Rightarrow> exn + pystr"
  get_options :: "pystr \<Rightarrow> exn + (pystr \<times> pystr) list"

datatype 'cls child = Home | Module 'cls

record ('cls, 'c) WebApp =
  oid :: nat
  config :: config
  controller :: 'c
  children :: "(bytes \<times> 'cls child) list"

fun put_modules ::
  "(pystr \<Rightarrow> exn + 'cls) \<Rightarrow> (pystr \<times> pystr) list \<Rightarrow> (bytes \<times> 'cls child) list
     \<Rightarrow> exn + (bytes \<times> 'cls child) list" where
  "put_modules get_object [] ch = Inr ch"
| "put_modules get_object ((mod_name, mod_class_name) # ms) ch =
     (case get_object mod_class_name of
        Inl e \<Rightarrow> Inl e
      | Inr mod_class \<Rightarrow>
          (case encode mod_name of
             Inl e \<Rightarrow> Inl e
           | Inr path \<Rightarrow> put_modules get_object ms (dict_set ch path (Module mod_class))))"

definition WebApp_init ::
  "(pystr \<Rightarrow> exn + 'cls) \<Rightarrow> config \<Rightarrow> 'c \<Rightarrow> nat \<Rightarrow> (exn + ('cls, 'c) WebApp) \<times> nat" where
  "WebApp_init get_object cfg ctl heap =
     (case get_options cfg (lit ''web-modules'') of
        Inl e \<Rightarrow> (Inl e, Suc heap)
      | Inr web_modules \<Rightarrow>
          (case put_modules get_object web_modules (dict_set [] [] Home) of
             Inl e \<Rightarrow> (Inl e, Suc heap)
           | Inr ch \<Rightarrow>
               (Inr \<lparr>oid = heap, config = cfg, controller = ctl, children = ch\<rparr>, Suc heap)))"

datatype interface = IResource | IOther nat

datatype 'c realm = PublicHTMLRealm config 'c

datatype checker = FilePasswordDB pystr

datatype credential_factory = DigestCredentialFactory pystr bytes

datatype 'c portal = Portal "'c realm" "checker list"

datatype ('cls, 'c) resource =
    Tree "('cls, 'c) WebApp"
  | HTTPAuthSessionWrapper "'c portal" "credential_factory list"

definition requestAvatar ::
  "(pystr \<Rightarrow> exn + 'cls) \<Rightarrow> 'c realm \<Rightarrow> 'a \<Rightarrow> 'm \<Rightarrow> interface list \<Rightarrow> nat
     \<Rightarrow> (exn + interface \<times> ('cls, 'c) WebApp) \<times> nat" where
  "requestAvatar get_object self avatar_id mind interfaces heap =
     (case self of
        PublicHTMLRealm cfg ctl \<Rightarrow>
          if IResource \<in> set interfaces then
            (case WebApp_init get_object cfg ctl heap of
               (Inl e, heap') \<Rightarrow> (Inl e, heap')
             | (Inr w, heap') \<Rightarrow> (Inr (IResource, w), heap'))
          else (Inl NotImplementedError, heap))"

definition get_web_app ::
  "(pystr \<Rightarrow> exn + 'cls) \<Rightarrow> config \<Rightarrow> 'c \<Rightarrow> nat \<Rightarrow> (exn + ('cls, 'c) resource) \<times> nat" where
  "get_web_app get_object cfg ctl heap =
     (case get_bool cfg (lit ''web'') (lit ''auth'') False of
        Inl e \<Rightarrow> (Inl e, heap)
      | Inr auth \<Rightarrow>
          if auth then
            (case get_string cfg (lit ''web'') (lit ''auth-db'') of
               Inl e \<Rightarrow> (Inl e, heap)
             | Inr auth_file \<Rightarrow>
                 (Inr (HTTPAuthSessionWrapper
                         (Portal (PublicHTMLRealm cfg ctl) [FilePasswordDB auth_file])
                         [DigestCredentialFactory (lit ''md5'') ''scrapy-do'']),
                  heap))
          else
            (case WebApp_init get_object cfg ctl heap of
               (Inl e, heap') \<Rightarrow> (Inl e, heap')
             | (Inr w, heap') \<Rightarrow> (Inr (Tree w), heap')))"

section \<open>Auxiliary definitions\<close>

text \<open>
  The bytes of \<open>json.dumps(d)\<close> followed by a newline: the text is ASCII (lemma
  \<open>encode_json_dumps\<close>), so each code point is one byte.
\<close>

definition json_bytes :: "dict \<Rightarrow> bytes" where
  "json_bytes d = map char_of (json_dumps (JObj d) @ [10])"

text \<open>
  A synchronous handler that ends the way an operation did: it raises the operation's error
  or returns the operation's fields. It is what the asynchronous nodes are compared with.
\<close>

definition sync_equivalent :: "(exn + dict) \<Rightarrow> 'st state \<Rightarrow> (exn + hret) \<times> 'st state" where
  "sync_equivalent outcome s =
     (case outcome of Inl e \<Rightarrow> (Inl e, s) | Inr d \<Rightarrow> (Inr (Data d), s))"

text \<open>
  A request as the framework hands it over, and collaborators to try the nodes on: a
  controller with fixed answers, an enumeration whose only member is \<open>RUNNING\<close>, and a
  configuration with one web module.
\<close>

definition new_request :: "(bytes \<rightharpoonup> bytes list) \<Rightarrow> 'st state" where
  "new_request a =
     \<lparr>args = a, code = 200, headers = [], written = [], finished = 0, calls = [], gen = Idle\<rparr>"

definition example_env :: "(nat, pystr) env" where
  "example_env =
     \<lparr>push_project = (\<lambda>name data. Inr [lit ''spiderA'', lit ''spiderB'']),
      get_projects = Inr [lit ''p1''],
      get_spiders = (\<lambda>project. Inr [lit ''s1'']),
      schedule_job = (\<lambda>project spider when. Inr (lit ''abc123'')),
      get_jobs = (\<lambda>status. Inr [lit ''j1'', lit ''j2'']),
      get_job = (\<lambda>identifier. if identifier = lit ''j1'' then Inr identifier
                                else Inl (Error (lit ''No such job''))),
      cancel_job = (\<lambda>job_id. Inr ()),
      to_dict = (\<lambda>job. [(lit ''identifier'', JStr job)]),
      JobStatus = (\<lambda>name. if name = lit ''RUNNING'' then Inr 5
                             else Inl (Error ([39] @ name @ [39]))),
      memory_rss = 1024,
      cpu_percent = 125\<rparr>"

definition example_config :: "bool \<Rightarrow> config" where
  "example_config auth =
     \<lparr>get_bool = (\<lambda>section key default.
                    if section = lit ''web'' \<and> key = lit ''auth'' then Inr auth else Inr default),
      get_string = (\<lambda>section key. Inr (lit ''auth.db'')),
      get_options = (\<lambda>section. Inr [(lit ''status.json'', lit ''scrapy_do.webservice.Status'')])\<rparr>"

definition example_get_object :: "pystr \<Rightarrow> exn + pystr" where
  "example_get_object name = Inr name"

section \<open>Serialisation never fails\<close>

lemma ascii_lit_digits: "\<forall>c\<in>set (dec_nat n). c < 128"
proof (induction n rule: dec_nat.induct)
  case (1 n)
  show ?case
  proof (cases "n < 10")
    case True
    then show ?thesis by (subst dec_nat.simps) simp
  next
    case False
    have "n mod 10 < 10" by simp
    then have "48 + n mod 10 < 128" by linarith
    with 1 False show ?thesis by (subst dec_nat.simps) auto
  qed
qed

lemma ascii_dec_int: "\<forall>c\<in>set (dec_int i). c < 128"
  using ascii_lit_digits by (auto simp: dec_int_def lit_def)

lemma hex_digit_ascii: "d < 16 \<Longrightarrow> hex_digit d < 128"
  by (simp add: hex_digit_def)

lemma ascii_hex2: "\<forall>c\<in>set (hex2 n). c < 128"
  by (simp add: hex2_def hex_digit_ascii)

lemma ascii_hex4: "\<forall>c\<in>set (hex4 n). c < 128"
  using ascii_hex2 by (auto simp: hex4_def)

lemma ascii_json_escape_char: "\<forall>c\<in>set (json_escape_char x). c < 128"
  using ascii_hex4 by (auto simp: json_escape_char_def)

lemma ascii_json_string: "\<forall>c\<in>set (json_string s). c < 128"
  using ascii_json_escape_char by (auto simp: json_string_def)

lemma ascii_join:
  "\<forall>c\<in>set sep. c < (128::nat) \<Longrightarrow> \<forall>x\<in>set xs. \<forall>c\<in>set x. c < 128 \<Longrightarrow> \<forall>c\<in>set (join sep xs). c < 128"
  by (induction sep xs rule: join.induct) auto

lemma ascii_json_dumps: "\<forall>c\<in>set (json_dumps j). c < 128"
proof (induction j)
  case (JList xs)
  have "\<forall>c\<in>set (join (lit '', '') (map json_dumps xs)). c < 128"
    by (rule ascii_join) (use JList in \<open>auto simp: lit_def\<close>)
  then show ?case by (auto simp: lit_def)
next
  case (JObj kvs)
  have "\<forall>c\<in>set (join (lit '', '')
          (map (\<lambda>kv. json_string (fst kv) @ lit '': '' @ json_dumps (snd kv)) kvs)). c < 128"
  proof (rule ascii_join)
    show "\<forall>c\<in>set (lit '', ''). c < 128" by (simp add: lit_def)
    show "\<forall>x\<in>set (map (\<lambda>kv. json_string (fst kv) @ lit '': '' @ json_dumps (snd kv)) kvs).
            \<forall>c\<in>set x. c < 128"
    proof (intro ballI)
      fix x c
      assume x: "x \<in> set (map (\<lambda>kv. json_string (fst kv) @ lit '': '' @ json_dumps (snd kv)) kvs)"
        and c: "c \<in> set x"
      from x obtain kv where kv: "kv \<in> set kvs"
        and xeq: "x = json_string (fst kv) @ lit '': '' @ json_dumps (snd kv)" by auto
      have "\<forall>c\<in>set (json_dumps (snd kv)). c < 128"
        using JObj[OF kv, of "snd kv"] by (cases kv) simp
      with c xeq ascii_json_string show "c < 128" by (auto simp: lit_def)
    qed
  qed
  then show ?case by (auto simp: lit_def)
qed (use ascii_lit_digits ascii_dec_int ascii_json_string in \<open>auto simp: lit_def\<close>)

lemma utf8_encode_ascii:
  "\<forall>c\<in>set s. c < 128 \<Longrightarrow> utf8_encode obj i s = Inr (map char_of s)"
  by (induction s arbitrary: i) (auto simp: is_surrogate_def utf8_bytes_def)

lemma encode_json_dumps: "encode (json_dumps j @ [10]) = Inr (map char_of (json_dumps j @ [10]))"
  unfolding encode_def using ascii_json_dumps by (intro utf8_encode_ascii) auto

lemma render_json_ok:
  "render_json s d =
     (Inr (json_bytes d),
      setHeader (setHeader s (lit ''Content-Type'') (HStr (lit ''application/json'')))
        (lit ''Content-Length'') (HInt (length (json_bytes d))))"
  by (simp add: render_json_def encode_json_dumps json_bytes_def del: json_dumps.simps)

section \<open>The render wrapper\<close>

lemma render_error_ok:
  "render_error e s =
     (let body = json_bytes [(lit ''status'', JStr (lit ''error'')), (lit ''msg'', JStr (str_exn e))]
      in (Inr (Body body),
          setHeader (setHeader (setResponseCode s 400)
                       (lit ''Content-Type'') (HStr (lit ''application/json'')))
            (lit ''Content-Length'') (HInt (length body))))"
  by (simp add: render_error_def render_json_ok Let_def)

lemma render_never_raises: "\<exists>r. fst (render handler s) = Inr r"
proof (cases "handler s")
  case (Pair r s1)
  show ?thesis
  proof (cases r)
    case (Inl e)
    with Pair show ?thesis by (simp add: render_def render_error_ok Let_def)
  next
    case (Inr h)
    with Pair show ?thesis
      by (cases h) (simp_all add: render_def render_json_ok)
  qed
qed

text \<open>
  \<^bold>\<open>C1.\<close> Whenever the method that \<open>render\<close> dispatches to raises an error \<open>e\<close>
  (a missing argument, an unknown status, an error of the controller, or any other), \<open>render\<close>
  catches it, sets the status code to 400 and returns the body
  \<open>{"status": "error", "msg": m}\<close> where \<open>m\<close> is \<open>str(e)\<close>, the text of the error. No
  error leaves \<open>render\<close>, whatever the handler does.
\<close>

theorem render_catches_handler_error:
  fixes s :: "'st state"
  assumes "handler s = (Inl e, s1)"
  shows "(let body = json_bytes [(lit ''status'', JStr (lit ''error'')),
                                 (lit ''msg'', JStr (str_exn e))]
          in render handler s =
               (Inr (Body body),
                setHeader (setHeader (setResponseCode s1 400)
                             (lit ''Content-Type'') (HStr (lit ''application/json'')))
                  (lit ''Content-Length'') (HInt (length body))))
         \<and> (\<forall>h. \<forall>s' :: 'st state. \<exists>r. fst (render h s') = Inr r)"
proof (intro conjI allI)
  show "\<exists>r. fst (render h s') = Inr r" for h and s' :: "'st state"
    by (rule render_never_raises)
qed (use assms in \<open>simp add: render_def render_error_ok Let_def\<close>)

lemmas eval_defs = json_bytes_def json_string_def json_escape_char_def lit_def
  new_request_def example_env_def setHeader_def setResponseCode_def request_write_def
  finish_def call_def arg0_def arg0_text_def arg_require_any_def decode_def
  repr_bytes_def repr_byte_def is_cont_def cons_ok_def dict_merge_def char_of_eq_iff

lemmas decode_defs = decode_def is_cont_def cons_ok_def

lemmas node_defs = ListJobs_render_GET_def ListSpiders_render_GET_def
  ScheduleJob_render_POST_def ListProjects_render_GET_def Status_render_GET_def
  PushProject_render_POST_def PushProject_do_async_def PushProject_resume_def
  CancelJob_render_POST_def CancelJob_do_async_def CancelJob_resume_def
  missing_argument_def deliver_def

theorem render_catches_handler_error_witness:
  \<open>ListSpiders_render_GET example_env (new_request Map.empty)
     = (Inl (MissingArgument [''project'']), new_request Map.empty)
   \<and> render (ListSpiders_render_GET example_env) (new_request Map.empty)
     = (Inr (Body (''{"status": "error", "msg": "Missing argument: project"}'' @ [CHR 0x0A])),
        (new_request Map.empty)
          \<lparr>code := 400,
           headers := [(lit ''Content-Type'', HStr (lit ''application/json'')),
                       (lit ''Content-Length'', HInt 56)]\<rparr>)\<close>
proof -
  have h: "ListSpiders_render_GET example_env (new_request Map.empty :: nat state)
             = (Inl (MissingArgument [''project'']), new_request Map.empty)"
    by (simp add: ListSpiders_render_GET_def new_request_def)
  show ?thesis
    using render_catches_handler_error
            [of "ListSpiders_render_GET example_env" "new_request Map.empty"
                "MissingArgument [''project'']" "new_request Map.empty"] h
    by (simp add: eval_defs Let_def)
qed

lemma dict_set_fresh: "k \<notin> fst ` set d \<Longrightarrow> dict_set d k v = d @ [(k, v)]"
  by (induction d) auto

lemma dict_merge_disjoint:
  "distinct (map fst b) \<Longrightarrow> fst ` set a \<inter> fst ` set b = {} \<Longrightarrow> dict_merge a b = a @ b"
  unfolding dict_merge_def
proof (induction b arbitrary: a)
  case Nil
  then show ?case by simp
next
  case (Cons kv b)
  have fresh: "fst kv \<notin> fst ` set a" using Cons.prems(2) by auto
  have "fst ` set (a @ [kv]) \<inter> fst ` set b = {}"
    using Cons.prems by auto
  with Cons.IH [of "a @ [kv]"] Cons.prems(1) fresh show ?case
    by (simp add: dict_set_fresh)
qed

lemma join_Cons: "join sep (x # xs) = x @ (if xs = [] then [] else sep @ join sep xs)"
  by (cases xs) simp_all

lemma json_bytes_status_prefix:
  \<open>prefix ''{"status": "ok"'' (json_bytes ((lit ''status'', JStr (lit ''ok'')) # d))\<close>
proof -
  have "json_bytes ((lit ''status'', JStr (lit ''ok'')) # d)
          = map char_of (lit ''{'' @ json_string (lit ''status'') @ lit '': '' @ json_string (lit ''ok''))
            @ map char_of ((if d = [] then [] else lit '', '' @ join (lit '', '')
                 (map (\<lambda>kv. json_string (fst kv) @ lit '': '' @ json_dumps (snd kv)) d))
               @ lit ''}'' @ [10])"
    by (simp add: json_bytes_def join_Cons)
  moreover have \<open>map char_of (lit ''{'' @ json_string (lit ''status'') @ lit '': '' @ json_string (lit ''ok''))
      = ''{"status": "ok"''\<close>
    by (simp add: json_string_def json_escape_char_def lit_def char_of_eq_iff)
  ultimately show ?thesis by (simp only: prefixI)
qed

lemma Status_keys:
  "Status_render_GET env s = (Inr (Data d), s1) \<Longrightarrow> map fst d = [lit ''memory-usage'', lit ''cpu-usage'']"
  by (auto simp: Status_render_GET_def)

lemma ListProjects_keys:
  "ListProjects_render_GET env s = (Inr (Data d), s1) \<Longrightarrow> map fst d = [lit ''projects'']"
  by (auto simp: ListProjects_render_GET_def split: sum.splits)

lemma ListSpiders_keys:
  "ListSpiders_render_GET env s = (Inr (Data d), s1) \<Longrightarrow> map fst d = [lit ''project'', lit ''spiders'']"
  by (auto simp: ListSpiders_render_GET_def split: sum.splits)

lemma ScheduleJob_keys:
  "ScheduleJob_render_POST env s = (Inr (Data d), s1) \<Longrightarrow> map fst d = [lit ''identifier'']"
  by (auto simp: ScheduleJob_render_POST_def split: sum.splits)

lemma ListJobs_keys:
  "ListJobs_render_GET env s = (Inr (Data d), s1) \<Longrightarrow> map fst d = [lit ''jobs'']"
  by (auto simp: ListJobs_render_GET_def split: sum.splits if_splits)

lemma sync_keys:
  assumes "handler \<in> {Status_render_GET env, ListProjects_render_GET env,
                       ListSpiders_render_GET env, ScheduleJob_render_POST env,
                       ListJobs_render_GET env}"
      and "handler s = (Inr (Data d), s1)"
  shows "distinct (map fst d) \<and> lit ''status'' \<notin> fst ` set d"
proof -
  from assms consider
      "map fst d = [lit ''memory-usage'', lit ''cpu-usage'']"
    | "map fst d = [lit ''projects'']"
    | "map fst d = [lit ''project'', lit ''spiders'']"
    | "map fst d = [lit ''identifier'']"
    | "map fst d = [lit ''jobs'']"
    using Status_keys ListProjects_keys ListSpiders_keys ScheduleJob_keys ListJobs_keys
    by (elim insertE emptyE) blast+
  then have "distinct (map fst d) \<and> lit ''status'' \<notin> set (map fst d)"
    by cases (simp_all add: lit_def)
  then show ?thesis by simp
qed

text \<open>
  \<^bold>\<open>C2.\<close> When one of the five synchronous nodes (\<open>Status\<close>, \<open>ListProjects\<close>,
  \<open>ListSpiders\<close>, \<open>ScheduleJob\<close>, \<open>ListJobs\<close>) returns a result mapping, the body that
  \<open>render\<close> returns is the JSON text of the mapping \<open>{"status": "ok"}\<close> merged with the
  fields of the operation: none of these nodes returns a field named \<open>status\<close>, so the merge
  keeps \<open>"ok"\<close>, and the text begins with \<open>{"status": "ok"\<close>.
\<close>

theorem sync_success_status_ok:
  fixes s :: "'st state" and env :: "('st, 'job) env"
  assumes "handler \<in> {Status_render_GET env, ListProjects_render_GET env,
                       ListSpiders_render_GET env, ScheduleJob_render_POST env,
                       ListJobs_render_GET env}"
      and "handler s = (Inr (Data data), s1)"
  shows \<open>(let envelope = dict_merge [(lit ''status'', JStr (lit ''ok''))] data;
              body = json_bytes envelope
          in render handler s =
               (Inr (Body body),
                setHeader (setHeader s1 (lit ''Content-Type'') (HStr (lit ''application/json'')))
                  (lit ''Content-Length'') (HInt (length body)))
             \<and> envelope = (lit ''status'', JStr (lit ''ok'')) # data
             \<and> map_of envelope (lit ''status'') = Some (JStr (lit ''ok''))
             \<and> prefix ''{"status": "ok"'' body)\<close>
proof -
  from sync_keys [OF assms]
  have "dict_merge [(lit ''status'', JStr (lit ''ok''))] data = (lit ''status'', JStr (lit ''ok'')) # data"
    by (subst dict_merge_disjoint) auto
  then show ?thesis
    using assms(2) json_bytes_status_prefix [of data]
    by (simp add: render_def render_json_ok Let_def del: json_dumps.simps)
qed

theorem sync_success_status_ok_witness:
  \<open>ScheduleJob_render_POST example_env
       (new_request [''project'' \<mapsto> [''p1''], ''spider'' \<mapsto> [''s1''], ''when'' \<mapsto> [''now'']])
     = (Inr (Data [(lit ''identifier'', JStr (lit ''abc123''))]),
        (new_request [''project'' \<mapsto> [''p1''], ''spider'' \<mapsto> [''s1''], ''when'' \<mapsto> [''now'']])
          \<lparr>calls := [Schedule_job (lit ''p1'') (lit ''s1'') (lit ''now'')]\<rparr>)
   \<and> render (ScheduleJob_render_POST example_env)
       (new_request [''project'' \<mapsto> [''p1''], ''spider'' \<mapsto> [''s1''], ''when'' \<mapsto> [''now'']])
     = (Inr (Body (''{"status": "ok", "identifier": "abc123"}'' @ [CHR 0x0A])),
        (new_request [''project'' \<mapsto> [''p1''], ''spider'' \<mapsto> [''s1''], ''when'' \<mapsto> [''now'']])
          \<lparr>headers := [(lit ''Content-Type'', HStr (lit ''application/json'')),
                       (lit ''Content-Length'', HInt 41)],
           calls := [Schedule_job (lit ''p1'') (lit ''s1'') (lit ''now'')]\<rparr>)\<close>
proof -
  let ?s = "new_request [''project'' \<mapsto> [''p1''], ''spider'' \<mapsto> [''s1''], ''when'' \<mapsto> [''now'']] :: nat state"
  let ?s1 = "?s\<lparr>calls := [Schedule_job (lit ''p1'') (lit ''s1'') (lit ''now'')]\<rparr>"
  have m: "ScheduleJob_render_POST example_env \<in>
             {Status_render_GET example_env, ListProjects_render_GET example_env,
              ListSpiders_render_GET example_env, ScheduleJob_render_POST example_env,
              ListJobs_render_GET example_env}"
    by simp
  have h: "ScheduleJob_render_POST example_env ?s
             = (Inr (Data [(lit ''identifier'', JStr (lit ''abc123''))]), ?s1)"
    by (simp add: ScheduleJob_render_POST_def eval_defs)
  show ?thesis
    using sync_success_status_ok [OF m h, unfolded Let_def, THEN conjunct1] h
    by (simp add: eval_defs)
qed

section \<open>The asynchronous nodes\<close>

lemma write_and_finish_ok:
  "write_and_finish s d =
     (finish (request_write
        (setHeader (setHeader s (lit ''Content-Type'') (HStr (lit ''application/json'')))
           (lit ''Content-Length'') (HInt (length (json_bytes d))))
        (json_bytes d)))\<lparr>gen := Finished\<rparr>"
  by (simp add: write_and_finish_def render_json_ok)

lemma render_sync_equivalent_error:
  "render (sync_equivalent (Inl e)) s =
     (Inr (Body (json_bytes [(lit ''status'', JStr (lit ''error'')), (lit ''msg'', JStr (str_exn e))])),
      setHeader (setHeader (setResponseCode s 400) (lit ''Content-Type'') (HStr (lit ''application/json'')))
        (lit ''Content-Length'')
        (HInt (length (json_bytes [(lit ''status'', JStr (lit ''error'')), (lit ''msg'', JStr (str_exn e))]))))"
  by (simp add: render_def sync_equivalent_def render_error_ok Let_def)

lemma render_sync_equivalent_ok:
  "render (sync_equivalent (Inr d)) s =
     (Inr (Body (json_bytes (dict_merge [(lit ''status'', JStr (lit ''ok''))] d))),
      setHeader (setHeader s (lit ''Content-Type'') (HStr (lit ''application/json'')))
        (lit ''Content-Length'')
        (HInt (length (json_bytes (dict_merge [(lit ''status'', JStr (lit ''ok''))] d)))))"
  by (simp add: render_def sync_equivalent_def render_json_ok)

text \<open>
  \<^bold>\<open>C4.\<close> Whatever the controller operation ends with, a list of spiders or an error
  for \<open>push_project\<close>, nothing or an error for \<open>cancel_job\<close>, the resumed generator of
  \<open>PushProject\<close> and \<open>CancelJob\<close> leaves the request exactly as \<open>render\<close> leaves it for
  a synchronous handler with the same outcome (same status code, same headers), and it writes,
  once, the very bytes that \<open>render\<close> returns as the body, and finishes the request.
\<close>

theorem async_envelope_matches_render:
  fixes s :: "'st state"
  shows "(case render (sync_equivalent
                 (case pushed of Inl e \<Rightarrow> Inl e
                  | Inr spiders \<Rightarrow> Inr [(lit ''spiders'', JList (map JStr spiders))])) s of
            (r, s') \<Rightarrow>
              \<exists>body. r = Inr (Body body)
                \<and> PushProject_resume pushed s = (finish (request_write s' body))\<lparr>gen := Finished\<rparr>)
       \<and> (case render (sync_equivalent
                 (case cancelled of Inl e \<Rightarrow> Inl e | Inr u \<Rightarrow> Inr [])) s of
            (r, s') \<Rightarrow>
              \<exists>body. r = Inr (Body body)
                \<and> CancelJob_resume cancelled s = (finish (request_write s' body))\<lparr>gen := Finished\<rparr>)"
proof
  have spiders: "dict_merge [(lit ''status'', JStr (lit ''ok''))] [(lit ''spiders'', v)]
                   = [(lit ''status'', JStr (lit ''ok'')), (lit ''spiders'', v)]" for v
    by (simp add: dict_merge_def lit_def)
  show "case render (sync_equivalent
                 (case pushed of Inl e \<Rightarrow> Inl e
                  | Inr spiders \<Rightarrow> Inr [(lit ''spiders'', JList (map JStr spiders))])) s of
            (r, s') \<Rightarrow>
              \<exists>body. r = Inr (Body body)
                \<and> PushProject_resume pushed s = (finish (request_write s' body))\<lparr>gen := Finished\<rparr>"
    by (cases pushed)
       (simp_all add: render_sync_equivalent_error render_sync_equivalent_ok spiders
          PushProject_resume_def write_and_finish_ok del: json_dumps.simps)
  have empty: "dict_merge [(lit ''status'', JStr (lit ''ok''))] [] = [(lit ''status'', JStr (lit ''ok''))]"
    by (simp add: dict_merge_def)
  show "case render (sync_equivalent
                 (case cancelled of Inl e \<Rightarrow> Inl e | Inr u \<Rightarrow> Inr [])) s of
            (r, s') \<Rightarrow>
              \<exists>body. r = Inr (Body body)
                \<and> CancelJob_resume cancelled s = (finish (request_write s' body))\<lparr>gen := Finished\<rparr>"
    by (cases cancelled)
       (simp_all add: render_sync_equivalent_error render_sync_equivalent_ok empty
          CancelJob_resume_def write_and_finish_ok del: json_dumps.simps)
qed

theorem async_envelope_matches_render_witness:
  \<open>PushProject_resume (Inr [lit ''spiderA'', lit ''spiderB'']) (new_request Map.empty :: nat state)
     = \<lparr>args = Map.empty, code = 200,
        headers = [(lit ''Content-Type'', HStr (lit ''application/json'')),
                   (lit ''Content-Length'', HInt 52)],
        written = [''{"status": "ok", "spiders": ["spiderA", "spiderB"]}'' @ [CHR 0x0A]],
        finished = 1, calls = [], gen = Finished\<rparr>
   \<and> CancelJob_resume (Inl (Error (lit ''boom''))) (new_request Map.empty :: nat state)
     = \<lparr>args = Map.empty, code = 400,
        headers = [(lit ''Content-Type'', HStr (lit ''application/json'')),
                   (lit ''Content-Length'', HInt 35)],
        written = [''{"status": "error", "msg": "boom"}'' @ [CHR 0x0A]],
        finished = 1, calls = [], gen = Finished\<rparr>\<close>
  using async_envelope_matches_render
          [of "Inr [lit ''spiderA'', lit ''spiderB'']" "new_request Map.empty :: nat state"
              "Inl (Error (lit ''boom''))"]
  by (simp add: render_sync_equivalent_ok render_sync_equivalent_error eval_defs finish_def)

lemma missing_argument_ok:
  "missing_argument e s =
     (let body = json_bytes [(lit ''status'', JStr (lit ''error'')),
                             (lit ''msg'', JStr (lit ''Missing argument: '' @ str_exn e))]
      in (finish (request_write
            (setHeader (setHeader (setResponseCode s 400)
                          (lit ''Content-Type'') (HStr (lit ''application/json'')))
               (lit ''Content-Length'') (HInt (length body)))
            body))\<lparr>gen := Finished\<rparr>)"
  by (simp add: missing_argument_def write_and_finish_ok Let_def del: json_dumps.simps)

lemma missing_id_body:
  \<open>json_bytes [(lit ''status'', JStr (lit ''error'')),
               (lit ''msg'', JStr (lit ''Missing argument: '' @ repr_bytes ''id''))]
     = ''{"status": "error", "msg": "Missing argument: b'id'"}'' @ [CHR 0x0A]\<close>
  by (simp add: json_bytes_def json_string_def json_escape_char_def lit_def
        repr_bytes_def repr_byte_def char_of_eq_iff)

lemma missing_id_length:
  "length (json_bytes [(lit ''status'', JStr (lit ''error'')),
                       (lit ''msg'', JStr (lit ''Missing argument: '' @ repr_bytes ''id''))]) = 54"
  by (simp add: missing_id_body)

text \<open>
  The generator completes the response exactly once when the arguments can be read, and when
  an argument is absent. It never completes it when reading an argument fails otherwise.
\<close>

lemma PushProject_completes_once:
  fixes s :: "'st state"
  assumes "arg0_text (args s) ''name'' = Inr name" and "arg0 (args s) ''archive'' = Inr data"
  shows "(let s1 = snd (PushProject_render_POST s); s2 = deliver env s1
          in gen s1 = Suspended_push name data \<and> written s1 = written s
           \<and> finished s1 = finished s \<and> calls s1 = calls s @ [Push_project name data]
           \<and> gen s2 = Finished \<and> length (written s2) = length (written s) + 1
           \<and> finished s2 = finished s + 1 \<and> calls s2 = calls s1)"
  using assms
  by (cases "push_project env name data")
     (simp_all add: node_defs write_and_finish_ok Let_def call_def setHeader_def
        setResponseCode_def request_write_def finish_def del: json_dumps.simps)

lemma CancelJob_completes_once:
  fixes s :: "'st state"
  assumes "arg0_text (args s) ''id'' = Inr job_id"
  shows "(let s1 = snd (CancelJob_render_POST s); s2 = deliver env s1
          in gen s1 = Suspended_cancel job_id \<and> written s1 = written s
           \<and> finished s1 = finished s \<and> calls s1 = calls s @ [Cancel_job job_id]
           \<and> gen s2 = Finished \<and> length (written s2) = length (written s) + 1
           \<and> finished s2 = finished s + 1 \<and> calls s2 = calls s1)"
  using assms
  by (cases "cancel_job env job_id")
     (simp_all add: node_defs write_and_finish_ok Let_def call_def setHeader_def
        setResponseCode_def request_write_def finish_def del: json_dumps.simps)

lemma PushProject_without_name:
  fixes s :: "'st state"
  assumes "args s ''name'' = None"
  shows "(let s1 = snd (PushProject_render_POST s)
          in gen s1 = Finished \<and> length (written s1) = length (written s) + 1
           \<and> finished s1 = finished s + 1 \<and> calls s1 = calls s \<and> code s1 = 400
           \<and> deliver env s1 = s1)"
  using assms
  by (simp add: node_defs arg0_text_def arg0_def write_and_finish_ok Let_def setHeader_def
        setResponseCode_def request_write_def finish_def del: json_dumps.simps)

lemma PushProject_without_archive:
  fixes s :: "'st state"
  assumes "arg0_text (args s) ''name'' = Inr name" and "args s ''archive'' = None"
  shows "(let s1 = snd (PushProject_render_POST s)
          in gen s1 = Finished \<and> length (written s1) = length (written s) + 1
           \<and> finished s1 = finished s + 1 \<and> calls s1 = calls s \<and> code s1 = 400
           \<and> deliver env s1 = s1)"
  using assms
  by (simp add: node_defs arg0_def write_and_finish_ok Let_def setHeader_def
        setResponseCode_def request_write_def finish_def del: json_dumps.simps)

lemma async_other_failure_never_completes:
  fixes s :: "'st state"
  shows "arg0_text (args s) ''name'' = Inl e \<Longrightarrow> \<forall>k. e \<noteq> KeyError k \<Longrightarrow>
           snd (PushProject_render_POST s) = s\<lparr>gen := Failed e\<rparr>
           \<and> deliver env (s\<lparr>gen := Failed e\<rparr>) = s\<lparr>gen := Failed e\<rparr>"
    and "arg0_text (args s) ''id'' = Inl e \<Longrightarrow> \<forall>k. e \<noteq> KeyError k \<Longrightarrow>
           snd (CancelJob_render_POST s) = s\<lparr>gen := Failed e\<rparr>
           \<and> deliver env (s\<lparr>gen := Failed e\<rparr>) = s\<lparr>gen := Failed e\<rparr>"
  by (cases e; simp add: node_defs)+


text \<open>
  \<^bold>\<open>C3.\<close> The claim: a request that lacks a required argument of an operation gets an
  error envelope whose \<open>msg\<close> names the argument, and the controller is not called. The code
  at \<open>POST /push-project\<close> with \<open>name=%FF\<close> and no \<open>archive\<close>: decoding \<open>name\<close> raises
  \<open>UnicodeDecodeError\<close> before \<open>archive\<close> is looked up, \<open>except KeyError\<close> does not catch
  it, and the generator dies. \<open>NOT_DONE_YET\<close> is returned, nothing is written, the request is
  never finished, and no envelope reports the missing \<open>archive\<close>.
\<close>

theorem PushProject_undecodable_name_without_archive:
  "(let s = new_request [''name'' \<mapsto> [[CHR 0xFF]]] :: nat state;
        s' = snd (render PushProject_render_POST s)
    in args s ''archive'' = None
     \<and> fst (render PushProject_render_POST s) = Inr NotDoneYet
     \<and> gen s' = Failed (UnicodeDecodeError [CHR 0xFF] 0 1 ''invalid start byte'')
     \<and> written s' = [] \<and> finished s' = 0 \<and> code s' = 200 \<and> calls s' = []
     \<and> deliver example_env s' = s')"
  by (simp add: render_def node_defs eval_defs Let_def)

text \<open>
  \<^bold>\<open>C5.\<close> The claim: every \<open>POST\<close> to \<open>PushProject\<close> or \<open>CancelJob\<close> returns
  \<open>NOT_DONE_YET\<close> and has its response written and finished exactly once. The code at
  \<open>POST /cancel-job\<close> with \<open>id=%FF\<close>: \<open>NOT_DONE_YET\<close> is returned, but decoding the
  argument raises \<open>UnicodeDecodeError\<close>, which leaves the generator; the response is written
  and finished zero times, also after the reactor has run.
\<close>

theorem CancelJob_undecodable_id_never_completes:
  "(let s = new_request [''id'' \<mapsto> [[CHR 0xFF]]] :: nat state;
        s' = snd (render CancelJob_render_POST s)
    in fst (render CancelJob_render_POST s) = Inr NotDoneYet
     \<and> gen s' = Failed (UnicodeDecodeError [CHR 0xFF] 0 1 ''invalid start byte'')
     \<and> written s' = [] \<and> finished s' = 0 \<and> calls s' = []
     \<and> deliver example_env s' = s')"
  by (simp add: render_def node_defs eval_defs Let_def)

text \<open>
  \<^bold>\<open>C8.\<close> The claim: a \<open>POST\<close> to \<open>CancelJob\<close> without \<open>id\<close> is answered at once
  with status 400 and the body \<open>{"status":"error","msg":"Missing argument: id"}\<close>, and
  \<open>cancel_job\<close> is not called. The code: status 400, one write, one finish and no call, but
  the \<open>msg\<close> is \<open>Missing argument: b'id'\<close>, since \<open>str\<close> of the \<open>KeyError\<close> is the
  \<open>repr\<close> of the missing key.
\<close>

theorem CancelJob_without_id:
  fixes s :: "'st state"
  assumes "args s ''id'' = None"
  shows \<open>render CancelJob_render_POST s =
           (Inr NotDoneYet,
            s\<lparr>code := 400,
              headers := dict_set (dict_set (headers s) (lit ''Content-Type'')
                                     (HStr (lit ''application/json'')))
                           (lit ''Content-Length'') (HInt 54),
              written := written s
                 @ [''{"status": "error", "msg": "Missing argument: b'id'"}'' @ [CHR 0x0A]],
              finished := finished s + 1,
              gen := Finished\<rparr>)\<close>
  using assms
  by (simp add: render_def CancelJob_render_POST_def CancelJob_do_async_def arg0_text_def
        arg0_def missing_argument_ok Let_def missing_id_length setHeader_def
        setResponseCode_def request_write_def finish_def del: json_dumps.simps)
     (simp add: missing_id_body)

theorem CancelJob_without_id_witness:
  \<open>args (new_request Map.empty :: nat state) ''id'' = None
   \<and> render CancelJob_render_POST (new_request Map.empty :: nat state) =
       (Inr NotDoneYet,
        \<lparr>args = Map.empty, code = 400,
         headers = [(lit ''Content-Type'', HStr (lit ''application/json'')),
                    (lit ''Content-Length'', HInt 54)],
         written = [''{"status": "error", "msg": "Missing argument: b'id'"}'' @ [CHR 0x0A]],
         finished = 1, calls = [], gen = Finished\<rparr>)\<close>
proof -
  have h: "args (new_request Map.empty :: nat state) ''id'' = None"
    by (simp add: new_request_def)
  show ?thesis
    using CancelJob_without_id [OF h] h
    by (simp add: new_request_def lit_def)
qed

section \<open>\<open>ListJobs\<close>\<close>

text \<open>
  \<^bold>\<open>C6.\<close> A \<open>GET\<close> to \<open>ListJobs\<close>: with neither \<open>status\<close> nor \<open>id\<close> it fails with a
  \<open>MissingArgument\<close> error; with \<open>status\<close> naming a member of the enumeration, that member
  is passed to \<open>get_jobs\<close> and the jobs it returns are the result, whatever \<open>id\<close> is; with
  \<open>id\<close> alone, \<open>get_job(id)\<close> is called and its job is returned as a list of one.
\<close>

theorem ListJobs_status_or_id:
  fixes s :: "'st state" and env :: "('st, 'job) env"
  shows "(args s ''status'' = None \<and> args s ''id'' = None \<longrightarrow>
            ListJobs_render_GET env s = (Inl (MissingArgument [''status'', ''id'']), s))
       \<and> (\<forall>v vs name status.
            args s ''status'' = Some (v # vs) \<and> decode v = Inr name
              \<and> JobStatus env name = Inr status \<longrightarrow>
            ListJobs_render_GET env s =
              (case get_jobs env status of
                 Inl e \<Rightarrow> Inl e
               | Inr jobs \<Rightarrow>
                   Inr (Data [(lit ''jobs'', JList (map (\<lambda>job. JObj (to_dict env job)) jobs))]),
               call (Get_jobs status) s))
       \<and> (\<forall>v vs identifier.
            args s ''status'' = None \<and> args s ''id'' = Some (v # vs)
              \<and> decode v = Inr identifier \<longrightarrow>
            ListJobs_render_GET env s =
              (case get_job env identifier of
                 Inl e \<Rightarrow> Inl e
               | Inr job \<Rightarrow> Inr (Data [(lit ''jobs'', JList [JObj (to_dict env job)])]),
               call (Get_job identifier) s))"
  by (auto simp: ListJobs_render_GET_def arg_require_any_def arg0_text_def arg0_def
           split: sum.splits)

theorem ListJobs_status_or_id_witness:
  "ListJobs_render_GET example_env (new_request Map.empty)
     = (Inl (MissingArgument [''status'', ''id'']), new_request Map.empty)
   \<and> ListJobs_render_GET example_env
       (new_request [''status'' \<mapsto> [''RUNNING''], ''id'' \<mapsto> [''zzz'']])
     = (Inr (Data [(lit ''jobs'', JList [JObj [(lit ''identifier'', JStr (lit ''j1''))],
                                          JObj [(lit ''identifier'', JStr (lit ''j2''))]])]),
        (new_request [''status'' \<mapsto> [''RUNNING''], ''id'' \<mapsto> [''zzz'']])
          \<lparr>calls := [Get_jobs 5]\<rparr>)
   \<and> ListJobs_render_GET example_env (new_request [''id'' \<mapsto> [''j1'']])
     = (Inr (Data [(lit ''jobs'', JList [JObj [(lit ''identifier'', JStr (lit ''j1''))]])]),
        (new_request [''id'' \<mapsto> [''j1'']])\<lparr>calls := [Get_job (lit ''j1'')]\<rparr>)"
proof (intro conjI)
  show "ListJobs_render_GET example_env (new_request Map.empty)
          = (Inl (MissingArgument [''status'', ''id'']), new_request Map.empty)"
    using ListJobs_status_or_id [of "new_request Map.empty" example_env, THEN conjunct1]
    by (simp add: new_request_def)
  have d1: "decode ''RUNNING'' = Inr (lit ''RUNNING'')"
    by (simp add: decode_defs lit_def)
  show "ListJobs_render_GET example_env
          (new_request [''status'' \<mapsto> [''RUNNING''], ''id'' \<mapsto> [''zzz'']])
        = (Inr (Data [(lit ''jobs'', JList [JObj [(lit ''identifier'', JStr (lit ''j1''))],
                                             JObj [(lit ''identifier'', JStr (lit ''j2''))]])]),
           (new_request [''status'' \<mapsto> [''RUNNING''], ''id'' \<mapsto> [''zzz'']])
             \<lparr>calls := [Get_jobs 5]\<rparr>)"
    using ListJobs_status_or_id
            [of "new_request [''status'' \<mapsto> [''RUNNING''], ''id'' \<mapsto> [''zzz'']]" example_env,
             THEN conjunct2, THEN conjunct1, rule_format,
             of "''RUNNING''" "[]" "lit ''RUNNING''" 5] d1
    by (simp add: new_request_def example_env_def call_def)
  have d2: "decode ''j1'' = Inr (lit ''j1'')"
    by (simp add: decode_defs lit_def)
  show "ListJobs_render_GET example_env (new_request [''id'' \<mapsto> [''j1'']])
        = (Inr (Data [(lit ''jobs'', JList [JObj [(lit ''identifier'', JStr (lit ''j1''))]])]),
           (new_request [''id'' \<mapsto> [''j1'']])\<lparr>calls := [Get_job (lit ''j1'')]\<rparr>)"
    using ListJobs_status_or_id
            [of "new_request [''id'' \<mapsto> [''j1'']]" example_env,
             THEN conjunct2, THEN conjunct2, rule_format,
             of "''j1''" "[]" "lit ''j1''"] d2
    by (simp add: new_request_def example_env_def call_def)
qed

text \<open>
  \<^bold>\<open>C7.\<close> A \<open>GET\<close> to \<open>ListJobs\<close> whose \<open>status\<close> names no member of the
  enumeration: the lookup raises, the controller is not called, and \<open>render\<close> answers with
  status 400 and the error envelope carrying the text of that error.
\<close>

theorem ListJobs_unknown_status:
  fixes s :: "'st state" and env :: "('st, 'job) env"
  assumes "args s ''status'' = Some (v # vs)"
      and "decode v = Inr name"
      and "JobStatus env name = Inl e"
  shows "ListJobs_render_GET env s = (Inl e, s)
       \<and> (let body = json_bytes [(lit ''status'', JStr (lit ''error'')),
                                  (lit ''msg'', JStr (str_exn e))]
          in render (ListJobs_render_GET env) s =
               (Inr (Body body),
                setHeader (setHeader (setResponseCode s 400)
                             (lit ''Content-Type'') (HStr (lit ''application/json'')))
                  (lit ''Content-Length'') (HInt (length body))))"
proof -
  have h: "ListJobs_render_GET env s = (Inl e, s)"
    using assms
    by (simp add: ListJobs_render_GET_def arg_require_any_def arg0_text_def arg0_def)
  then show ?thesis
    by (simp add: render_def render_error_ok Let_def del: json_dumps.simps)
qed

theorem ListJobs_unknown_status_witness:
  \<open>render (ListJobs_render_GET example_env) (new_request [''status'' \<mapsto> [''UNKNOWN'']])
     = (Inr (Body (''{"status": "error", "msg": "'UNKNOWN'"}'' @ [CHR 0x0A])),
        (new_request [''status'' \<mapsto> [''UNKNOWN'']])
          \<lparr>code := 400,
           headers := [(lit ''Content-Type'', HStr (lit ''application/json'')),
                       (lit ''Content-Length'', HInt 40)]\<rparr>)\<close>
proof -
  have a: "args (new_request [''status'' \<mapsto> [''UNKNOWN'']] :: nat state) ''status''
             = Some (''UNKNOWN'' # [])"
    by (simp add: new_request_def)
  have d: "decode ''UNKNOWN'' = Inr (lit ''UNKNOWN'')"
    by (simp add: decode_defs lit_def)
  have j: "JobStatus example_env (lit ''UNKNOWN'') = Inl (Error ([39] @ lit ''UNKNOWN'' @ [39]))"
    by (simp add: example_env_def lit_def)
  show ?thesis
    using ListJobs_unknown_status [OF a d j, THEN conjunct2]
    by (simp add: eval_defs Let_def)
qed

text \<open>
  \<^bold>\<open>C10.\<close> A \<open>GET\<close> to \<open>ListJobs\<close> with both \<open>status\<close> and \<open>id\<close>: \<open>get_job\<close> is
  never called; when the status decodes to a member, \<open>get_jobs\<close> is called with it, once; and
  the result is the same whatever \<open>id\<close> is, also when it is absent.
\<close>

theorem ListJobs_status_takes_precedence:
  fixes s :: "'st state" and env :: "('st, 'job) env"
  assumes "args s ''status'' \<noteq> None" and "args s ''id'' \<noteq> None"
  shows "(\<exists>cs. calls (snd (ListJobs_render_GET env s)) = calls s @ cs
              \<and> (\<forall>identifier. Get_job identifier \<notin> set cs))
       \<and> (\<forall>v vs name status.
            args s ''status'' = Some (v # vs) \<and> decode v = Inr name
              \<and> JobStatus env name = Inr status \<longrightarrow>
            calls (snd (ListJobs_render_GET env s)) = calls s @ [Get_jobs status])
       \<and> (\<forall>x. fst (ListJobs_render_GET env (s\<lparr>args := (args s)(''id'' := x)\<rparr>))
                = fst (ListJobs_render_GET env s))"
  using assms
  by (auto simp: ListJobs_render_GET_def arg_require_any_def arg0_text_def arg0_def call_def
           split: sum.splits list.splits)

theorem ListJobs_status_takes_precedence_witness:
  "calls (snd (ListJobs_render_GET example_env
                 (new_request [''status'' \<mapsto> [''RUNNING''], ''id'' \<mapsto> [''j1'']])))
     = [Get_jobs 5]
   \<and> fst (ListJobs_render_GET example_env
            (new_request [''status'' \<mapsto> [''RUNNING''], ''id'' \<mapsto> [''j1'']]))
     = fst (ListJobs_render_GET example_env (new_request [''status'' \<mapsto> [''RUNNING'']]))"
proof -
  let ?s = "new_request [''status'' \<mapsto> [''RUNNING''], ''id'' \<mapsto> [''j1'']] :: nat state"
  have a: "args ?s ''status'' \<noteq> None" and b: "args ?s ''id'' \<noteq> None"
    by (simp_all add: new_request_def)
  have d: "decode ''RUNNING'' = Inr (lit ''RUNNING'')"
    by (simp add: decode_defs lit_def)
  have u: "?s\<lparr>args := (args ?s)(''id'' := None)\<rparr> = new_request [''status'' \<mapsto> [''RUNNING'']]"
    by (simp add: new_request_def fun_upd_twist)
  from ListJobs_status_takes_precedence
         [OF a b, of example_env, THEN conjunct2, THEN conjunct1, rule_format,
          of "''RUNNING''" "[]" "lit ''RUNNING''" 5] d
  have c: "calls (snd (ListJobs_render_GET example_env ?s)) = [Get_jobs 5]"
    by (simp add: new_request_def example_env_def)
  from ListJobs_status_takes_precedence
         [OF a b, of example_env, THEN conjunct2, THEN conjunct2, rule_format, of None] u
  have "fst (ListJobs_render_GET example_env (new_request [''status'' \<mapsto> [''RUNNING'']]))
          = fst (ListJobs_render_GET example_env ?s)"
    by simp
  with c show ?thesis by simp
qed

section \<open>\<open>get_web_app\<close>\<close>

lemma WebApp_init_children:
  assumes "WebApp_init g cfg ctl h = (Inr w, h')"
  shows "oid w = h \<and> h' = Suc h \<and> config w = cfg \<and> controller w = ctl
       \<and> (\<exists>ms. get_options cfg (lit ''web-modules'') = Inr ms
                \<and> put_modules g ms [([], Home)] = Inr (children w))"
  using assms by (auto simp: WebApp_init_def split: sum.splits)

lemma WebApp_init_same_modules:
  assumes "get_options cfg' (lit ''web-modules'') = get_options cfg (lit ''web-modules'')"
      and "WebApp_init g cfg' ctl' h = (Inr u, hu)"
  shows "WebApp_init g cfg ctl heap =
           (Inr \<lparr>oid = heap, config = cfg, controller = ctl, children = children u\<rparr>, Suc heap)"
  using assms by (auto simp: WebApp_init_def split: sum.splits)

lemma get_web_app_Tree:
  assumes "get_web_app g cfg ctl h = (Inr (Tree u), hu)"
  shows "WebApp_init g cfg ctl h = (Inr u, hu)"
  using assms by (auto simp: get_web_app_def split: sum.splits prod.splits if_splits)

text \<open>
  \<^bold>\<open>C9.\<close> With the \<open>auth\<close> flag off, \<open>get_web_app\<close> returns the \<open>WebApp\<close> itself.
  With the flag on, it returns the wrapper for HTTP Digest authentication with algorithm
  \<open>md5\<close> and realm \<open>scrapy-do\<close>, over a portal whose checker is the password file named
  by \<open>auth-db\<close> and whose realm holds the configuration and the controller. Each
  \<open>requestAvatar\<close> for \<open>IResource\<close> runs the constructor that the ungated mode runs; where
  an ungated tree exists for the same web modules, it returns a new \<open>WebApp\<close> with the
  children and the controller of that tree, and the next call returns another one, with
  another identity. For other interfaces it raises \<open>NotImplementedError\<close>.
\<close>

theorem get_web_app_two_modes:
  fixes cfg :: config and ctl :: 'c and get_object :: "pystr \<Rightarrow> exn + 'cls"
  shows "(get_bool cfg (lit ''web'') (lit ''auth'') False = Inr False \<longrightarrow>
            get_web_app get_object cfg ctl heap =
              (case WebApp_init get_object cfg ctl heap of
                 (Inl e, heap') \<Rightarrow> (Inl e, heap')
               | (Inr w, heap') \<Rightarrow> (Inr (Tree w), heap')))
       \<and> (\<forall>auth_file.
            get_bool cfg (lit ''web'') (lit ''auth'') False = Inr True
              \<and> get_string cfg (lit ''web'') (lit ''auth-db'') = Inr auth_file \<longrightarrow>
            get_web_app get_object cfg ctl heap =
              (Inr (HTTPAuthSessionWrapper
                      (Portal (PublicHTMLRealm cfg ctl) [FilePasswordDB auth_file])
                      [DigestCredentialFactory (lit ''md5'') ''scrapy-do'']),
               heap))
       \<and> (\<forall>(avatar_id :: 'a) (mind :: 'm) interfaces.
            IResource \<in> set interfaces \<longrightarrow>
            requestAvatar get_object (PublicHTMLRealm cfg ctl) avatar_id mind interfaces heap =
              (case WebApp_init get_object cfg ctl heap of
                 (Inl e, heap') \<Rightarrow> (Inl e, heap')
               | (Inr w, heap') \<Rightarrow> (Inr (IResource, w), heap')))
       \<and> (\<forall>(avatar_id :: 'a) (mind :: 'm) interfaces cfg' h u hu.
            IResource \<in> set interfaces
              \<and> get_bool cfg' (lit ''web'') (lit ''auth'') False = Inr False
              \<and> get_options cfg' (lit ''web-modules'') = get_options cfg (lit ''web-modules'')
              \<and> get_web_app get_object cfg' ctl h = (Inr (Tree u), hu) \<longrightarrow>
            requestAvatar get_object (PublicHTMLRealm cfg ctl) avatar_id mind interfaces heap
              = (Inr (IResource,
                      \<lparr>oid = heap, config = cfg, controller = ctl, children = children u\<rparr>),
                 Suc heap)
            \<and> requestAvatar get_object (PublicHTMLRealm cfg ctl) avatar_id mind interfaces
                (Suc heap)
              = (Inr (IResource,
                      \<lparr>oid = Suc heap, config = cfg, controller = ctl, children = children u\<rparr>),
                 Suc (Suc heap))
            \<and> controller u = ctl \<and> oid u = h)
       \<and> (\<forall>(avatar_id :: 'a) (mind :: 'm) interfaces.
            IResource \<notin> set interfaces \<longrightarrow>
            requestAvatar get_object (PublicHTMLRealm cfg ctl) avatar_id mind interfaces heap
              = (Inl NotImplementedError, heap))"
proof (intro conjI allI impI)
  fix avatar_id :: 'a and mind :: 'm and interfaces cfg' h u hu
  assume a: "IResource \<in> set interfaces
              \<and> get_bool cfg' (lit ''web'') (lit ''auth'') False = Inr False
              \<and> get_options cfg' (lit ''web-modules'') = get_options cfg (lit ''web-modules'')
              \<and> get_web_app get_object cfg' ctl h = (Inr (Tree u), hu)"
  then have u: "WebApp_init get_object cfg' ctl h = (Inr u, hu)"
    by (simp add: get_web_app_Tree)
  from a have o: "get_options cfg' (lit ''web-modules'') = get_options cfg (lit ''web-modules'')"
    by simp
  have w: "WebApp_init get_object cfg ctl k =
             (Inr \<lparr>oid = k, config = cfg, controller = ctl, children = children u\<rparr>, Suc k)" for k
    by (rule WebApp_init_same_modules [OF o u])
  from a show "requestAvatar get_object (PublicHTMLRealm cfg ctl) avatar_id mind interfaces heap
              = (Inr (IResource,
                      \<lparr>oid = heap, config = cfg, controller = ctl, children = children u\<rparr>),
                 Suc heap)"
    by (simp add: requestAvatar_def w)
  from a show "requestAvatar get_object (PublicHTMLRealm cfg ctl) avatar_id mind interfaces
                (Suc heap)
              = (Inr (IResource,
                      \<lparr>oid = Suc heap, config = cfg, controller = ctl, children = children u\<rparr>),
                 Suc (Suc heap))"
    by (simp add: requestAvatar_def w)
  from WebApp_init_children [OF u] show "controller u = ctl" "oid u = h"
    by simp_all
qed (auto simp: get_web_app_def requestAvatar_def)

theorem get_web_app_two_modes_witness:
  "get_web_app example_get_object (example_config False) () 0
     = (Inr (Tree \<lparr>oid = 0, config = example_config False, controller = (),
                   children = [([], Home),
                               (''status.json'', Module (lit ''scrapy_do.webservice.Status''))]\<rparr>),
        1)
   \<and> get_web_app example_get_object (example_config True) () 0
     = (Inr (HTTPAuthSessionWrapper
               (Portal (PublicHTMLRealm (example_config True) ()) [FilePasswordDB (lit ''auth.db'')])
               [DigestCredentialFactory (lit ''md5'') ''scrapy-do'']),
        0)
   \<and> requestAvatar example_get_object (PublicHTMLRealm (example_config True) ())
        (lit ''admin'') () [IResource] 7
     = (Inr (IResource,
             \<lparr>oid = 7, config = example_config True, controller = (),
              children = [([], Home),
                          (''status.json'', Module (lit ''scrapy_do.webservice.Status''))]\<rparr>),
        8)
   \<and> requestAvatar example_get_object (PublicHTMLRealm (example_config True) ())
        (lit ''admin'') () [IResource] 8
     = (Inr (IResource,
             \<lparr>oid = 8, config = example_config True, controller = (),
              children = [([], Home),
                          (''status.json'', Module (lit ''scrapy_do.webservice.Status''))]\<rparr>),
        9)
   \<and> requestAvatar example_get_object (PublicHTMLRealm (example_config True) ())
        (lit ''admin'') () [IOther 0] 7
     = ((Inl NotImplementedError :: exn + interface \<times> (pystr, unit) WebApp), 7)"
proof -
  have e: "encode (lit ''status.json'') = Inr ''status.json''"
    by (simp add: encode_def is_surrogate_def utf8_bytes_def lit_def char_of_eq_iff)
  have w: "WebApp_init example_get_object (example_config False) () 0
             = (Inr \<lparr>oid = 0, config = example_config False, controller = (),
                     children = [([], Home),
                                 (''status.json'', Module (lit ''scrapy_do.webservice.Status''))]\<rparr>,
                Suc 0)"
    by (simp add: WebApp_init_def example_config_def example_get_object_def e)
  note t = get_web_app_two_modes
             [where get_object = example_get_object and ctl = "()"]
  have f: "get_bool (example_config b) (lit ''web'') (lit ''auth'') False = Inr b" for b
    by (simp add: example_config_def)
  have g: "get_string (example_config True) (lit ''web'') (lit ''auth-db'') = Inr (lit ''auth.db'')"
    by (simp add: example_config_def)
  have o: "get_options (example_config False) (lit ''web-modules'')
             = get_options (example_config True) (lit ''web-modules'')"
    by (simp add: example_config_def)
  from t [of "example_config False" 0, THEN conjunct1] f [of False]
  have 1: "get_web_app example_get_object (example_config False) () 0
     = (Inr (Tree \<lparr>oid = 0, config = example_config False, controller = (),
                   children = [([], Home),
                               (''status.json'', Module (lit ''scrapy_do.webservice.Status''))]\<rparr>),
        1)"
    by (simp add: w)
  from t [of "example_config True" 0, THEN conjunct2, THEN conjunct1, rule_format,
          of "lit ''auth.db''"] f [of True] g
  have 2: "get_web_app example_get_object (example_config True) () 0
     = (Inr (HTTPAuthSessionWrapper
               (Portal (PublicHTMLRealm (example_config True) ()) [FilePasswordDB (lit ''auth.db'')])
               [DigestCredentialFactory (lit ''md5'') ''scrapy-do'']),
        0)"
    by simp
  have i: "IResource \<in> set [IResource]" by simp
  from t [of "example_config True" 7, THEN conjunct2, THEN conjunct2, THEN conjunct2,
          THEN conjunct1, rule_format,
          of "[IResource]" "example_config False" 0 _ 1 "lit ''admin''" "()"]
       i f [of False] o 1
  have 3: "requestAvatar example_get_object (PublicHTMLRealm (example_config True) ())
        (lit ''admin'') () [IResource] 7
     = (Inr (IResource,
             \<lparr>oid = 7, config = example_config True, controller = (),
              children = [([], Home),
                          (''status.json'', Module (lit ''scrapy_do.webservice.Status''))]\<rparr>),
        8)
   \<and> requestAvatar example_get_object (PublicHTMLRealm (example_config True) ())
        (lit ''admin'') () [IResource] 8
     = (Inr (IResource,
             \<lparr>oid = 8, config = example_config True, controller = (),
              children = [([], Home),
                          (''status.json'', Module (lit ''scrapy_do.webservice.Status''))]\<rparr>),
        9)"
    by simp
  have n: "IResource \<notin> set [IOther 0]" by simp
  from t [of "example_config True" 7, THEN conjunct2, THEN conjunct2, THEN conjunct2,
          THEN conjunct2, rule_format, of "[IOther 0]" "lit ''admin''" "()"] n
  have 4: "requestAvatar example_get_object (PublicHTMLRealm (example_config True) ())
        (lit ''admin'') () [IOther 0] 7
     = ((Inl NotImplementedError :: exn + interface \<times> (pystr, unit) WebApp), 7)"
    by simp
  from 1 2 3 4 show ?thesis by simp
qed

end
